theory Spec2Isabelle
  imports Complex_Main "HOL-Library.Char_ord" "HOL-Library.List_Lexorder" "HOL-Library.AList"
    "HOL-Library.Multiset"
begin

section \<open>Calendar dates as the extractor uses them\<close>

text \<open>
  The extractor works with \<open>datetime.date\<close> values: it builds them with
  \<open>datetime.strptime(s[:10], '%Y-%m-%d').date()\<close> and only ever subtracts two of them and
  reads \<open>.days\<close> of the difference. A date is a proleptic Gregorian year, month and day;
  the difference in days is the difference of the ordinals.
\<close>

datatype date = Date (year: nat) (month: nat) (day: nat)

definition is_leap :: "nat \<Rightarrow> bool" where
  "is_leap y \<longleftrightarrow> y mod 4 = 0 \<and> (y mod 100 \<noteq> 0 \<or> y mod 400 = 0)"

definition days_in_month :: "nat \<Rightarrow> nat \<Rightarrow> nat" where
  "days_in_month y m =
     (if m = 2 then (if is_leap y then 29 else 28)
      else if m = 4 \<or> m = 6 \<or> m = 9 \<or> m = 11 then 30 else 31)"

definition days_before_year :: "nat \<Rightarrow> int" where
  "days_before_year y =
     (let p = int y - 1 in p * 365 + p div 4 - p div 100 + p div 400)"

fun days_before_month_common :: "nat \<Rightarrow> int" where
  "days_before_month_common m =
     (if m = 1 then 0 else if m = 2 then 31 else if m = 3 then 59 else if m = 4 then 90
      else if m = 5 then 120 else if m = 6 then 151 else if m = 7 then 181
      else if m = 8 then 212 else if m = 9 then 243 else if m = 10 then 273
      else if m = 11 then 304 else 334)"

definition days_before_month :: "nat \<Rightarrow> nat \<Rightarrow> int" where
  "days_before_month y m =
     days_before_month_common m + (if m > 2 \<and> is_leap y then 1 else 0)"

definition toordinal :: "date \<Rightarrow> int" where
  "toordinal d = days_before_year (year d) + days_before_month (year d) (month d) + int (day d)"

text \<open>\<open>(a - b).days\<close>\<close>

definition days_between :: "date \<Rightarrow> date \<Rightarrow> int" where
  "days_between a b = toordinal a - toordinal b"

text \<open>The constructor \<open>date(y, m, d)\<close> raises \<open>ValueError\<close> outside the calendar.\<close>

definition valid_date :: "nat \<Rightarrow> nat \<Rightarrow> nat \<Rightarrow> bool" where
  "valid_date y m d \<longleftrightarrow>
     1 \<le> y \<and> y \<le> 9999 \<and> 1 \<le> m \<and> m \<le> 12 \<and> 1 \<le> d \<and> d \<le> days_in_month y m"

subsection \<open>Parsing with the format \<open>%Y-%m-%d\<close>\<close>

text \<open>
  \<open>strptime\<close> matches the text against the regular expression of the format: four
  digits, a hyphen, a month \<open>1[0-2]|0[1-9]|[1-9]\<close>, a hyphen and a day
  \<open>3[0-1]|[1-2]\d|0[1-9]|[1-9]| [1-9]\<close>, the alternatives tried in this order; text left
  over after the match is a \<open>ValueError\<close>.
\<close>

definition digit_of :: "char \<Rightarrow> nat option" where
  "digit_of c =
     (let n = (of_char c :: nat) in if 48 \<le> n \<and> n \<le> 57 then Some (n - 48) else None)"

definition in_range :: "char \<Rightarrow> nat \<Rightarrow> nat \<Rightarrow> bool" where
  "in_range c lo hi = (case digit_of c of None \<Rightarrow> False | Some n \<Rightarrow> lo \<le> n \<and> n \<le> hi)"

definition digit_val :: "char \<Rightarrow> nat" where
  "digit_val c = (case digit_of c of None \<Rightarrow> 0 | Some n \<Rightarrow> n)"

fun parse_year :: "string \<Rightarrow> (nat \<times> string) option" where
  "parse_year (a # b # c # d # rest) =
     (if in_range a 0 9 \<and> in_range b 0 9 \<and> in_range c 0 9 \<and> in_range d 0 9
      then Some (1000 * digit_val a + 100 * digit_val b + 10 * digit_val c + digit_val d, rest)
      else None)"
| "parse_year _ = None"

fun parse_month :: "string \<Rightarrow> (nat \<times> string) option" where
  "parse_month [] = None"
| "parse_month [a] = (if in_range a 1 9 then Some (digit_val a, []) else None)"
| "parse_month (a # b # rest) =
     (if a = CHR ''1'' \<and> in_range b 0 2 then Some (10 + digit_val b, rest)
      else if a = CHR ''0'' \<and> in_range b 1 9 then Some (digit_val b, rest)
      else if in_range a 1 9 then Some (digit_val a, b # rest)
      else None)"

fun parse_day :: "string \<Rightarrow> (nat \<times> string) option" where
  "parse_day [] = None"
| "parse_day [a] = (if in_range a 1 9 then Some (digit_val a, []) else None)"
| "parse_day (a # b # rest) =
     (if a = CHR ''3'' \<and> in_range b 0 1 then Some (30 + digit_val b, rest)
      else if in_range a 1 2 \<and> in_range b 0 9 then Some (10 * digit_val a + digit_val b, rest)
      else if a = CHR ''0'' \<and> in_range b 1 9 then Some (digit_val b, rest)
      else if in_range a 1 9 then Some (digit_val a, b # rest)
      else if a = CHR '' '' \<and> in_range b 1 9 then Some (digit_val b, rest)
      else None)"

fun expect_hyphen :: "string \<Rightarrow> string option" where
  "expect_hyphen (c # rest) = (if c = CHR ''-'' then Some rest else None)"
| "expect_hyphen [] = None"

definition strptime_ymd :: "string \<Rightarrow> date option" where
  "strptime_ymd s =
     Option.bind (parse_year s) (\<lambda>(y, r1).
     Option.bind (expect_hyphen r1) (\<lambda>r2.
     Option.bind (parse_month r2) (\<lambda>(m, r3).
     Option.bind (expect_hyphen r3) (\<lambda>r4.
     Option.bind (parse_day r4) (\<lambda>(d, r5).
       if r5 = [] \<and> valid_date y m d then Some (Date y m d) else None)))))"

text \<open>
  \<open>FinancialExtractor._parse_date\<close>: an absent or empty string gives \<open>None\<close>; so does any
  text \<open>strptime\<close> rejects, since the \<open>ValueError\<close> is caught.
\<close>

definition parse_date :: "string option \<Rightarrow> date option" where
  "parse_date date_str =
     (case date_str of None \<Rightarrow> None
      | Some s \<Rightarrow> if s = [] then None else strptime_ymd (take 10 s))"

section \<open>Observations and the concept index\<close>

text \<open>
  The \<open>val\<close> field of an observation goes through \<open>float(value)\<close> under a handler for
  \<open>ValueError\<close> and \<open>TypeError\<close>. A raw value is here one of: absent (JSON null or a
  missing key), a value that \<open>float\<close> converts to a finite number, or a value on which
  \<open>float\<close> raises \<open>ValueError\<close> or \<open>TypeError\<close> (a non-numeric string, a list, an
  object). Floats are idealised as reals. Date fields are text or absent. The two
  remaining outcomes of \<open>float\<close> (an integer too large for a float, which raises
  \<open>OverflowError\<close>, and a result that is \<open>nan\<close> or an infinity) and date fields that are not
  text are the subject of the section on field values of any JSON type, which also shows
  that its resolver agrees with this one on the observations described here.
\<close>

datatype raw_value = Absent | Numeric real | Unconvertible

text \<open>One element of a unit array of the payload; every field is read with \<open>val.get\<close>.\<close>

record raw_observation =
  obs_val :: raw_value
  obs_end :: "string option"
  obs_start :: "string option"
  obs_fy :: "int option"
  obs_fp :: "string option"
  obs_form :: "string option"
  obs_filed :: "string option"
  obs_accn :: "string option"
  obs_frame :: "string option"

text \<open>The dictionary \<open>_index_facts\<close> appends to a concept's list.\<close>

record fact =
  fact_value :: raw_value
  fact_end :: "string option"
  fact_start :: "string option"
  fact_fy :: "int option"
  fact_fp :: "string option"
  fact_form :: "string option"
  fact_filed :: "string option"
  fact_accn :: "string option"
  fact_frame :: "string option"
  fact_unit :: string

definition mk_fact :: "string \<Rightarrow> raw_observation \<Rightarrow> fact" where
  "mk_fact unit_type v =
     \<lparr> fact_value = obs_val v, fact_end = obs_end v, fact_start = obs_start v,
       fact_fy = obs_fy v, fact_fp = obs_fp v, fact_form = obs_form v,
       fact_filed = obs_filed v, fact_accn = obs_accn v, fact_frame = obs_frame v,
       fact_unit = unit_type \<rparr>"

text \<open>
  A namespace of the payload maps a concept to its \<open>units\<close>, which map a unit label to an
  array of observations. Python dictionaries iterate in insertion order, so both are
  association lists. A missing \<open>facts\<close>, namespace or \<open>units\<close> key reads as empty.
\<close>

type_synonym units = "(string \<times> raw_observation list) list"
type_synonym namespace = "(string \<times> units) list"

record xbrl_facts =
  us_gaap :: namespace
  dei :: namespace

type_synonym concept_index = "string \<rightharpoonup> fact list"

definition index_values :: "string \<Rightarrow> string \<Rightarrow> raw_observation list \<Rightarrow> concept_index \<Rightarrow> concept_index" where
  "index_values concept unit_type values idx =
     idx(concept \<mapsto> (case idx concept of None \<Rightarrow> [] | Some fs \<Rightarrow> fs) @ map (mk_fact unit_type) values)"

definition index_concept :: "string \<Rightarrow> units \<Rightarrow> concept_index \<Rightarrow> concept_index" where
  "index_concept concept us idx = fold (\<lambda>(unit_type, values). index_values concept unit_type values) us idx"

definition index_namespace :: "namespace \<Rightarrow> concept_index \<Rightarrow> concept_index" where
  "index_namespace ns idx = fold (\<lambda>(concept, us). index_concept concept us) ns idx"

definition index_facts :: "xbrl_facts \<Rightarrow> concept_index" where
  "index_facts p = index_namespace (dei p) (index_namespace (us_gaap p) Map.empty)"

section \<open>The tag resolver\<close>

text \<open>
  \<open>sorted(facts, key=lambda x: x.get('end', '') or '', reverse=True)\<close>: the key is the
  end-date text (empty when absent), compared as text; with \<open>reverse=True\<close> Python
  reverses the list, sorts it stably in ascending order and reverses the result. For
  end fields that are not text see \<open>raw_end_key\<close> and \<open>raw_sorted_facts\<close>.
\<close>

definition end_key :: "fact \<Rightarrow> string" where
  "end_key f = (case fact_end f of None \<Rightarrow> [] | Some s \<Rightarrow> s)"

definition sorted_facts :: "fact list \<Rightarrow> fact list" where
  "sorted_facts fs = rev (sort_key end_key (rev fs))"

text \<open>\<open>if form_type and fact.get('form') != form_type: continue\<close>\<close>

definition form_rejected :: "string option \<Rightarrow> fact \<Rightarrow> bool" where
  "form_rejected form_type f \<longleftrightarrow>
     (case form_type of None \<Rightarrow> False
      | Some ft \<Rightarrow> ft \<noteq> [] \<and> fact_form f \<noteq> Some ft)"

text \<open>
  The end-date check: the observation is skipped when its end date does not parse or lies
  more than the tolerance away from the target.
\<close>

definition end_rejected :: "date \<Rightarrow> int \<Rightarrow> fact \<Rightarrow> bool" where
  "end_rejected period_end tolerance_days f \<longleftrightarrow>
     (case parse_date (fact_end f) of None \<Rightarrow> True
      | Some fact_end_d \<Rightarrow> \<bar>days_between fact_end_d period_end\<bar> > tolerance_days)"

text \<open>
  The start-date check runs only when a target start is given and the observation's
  own start date parses.
\<close>

definition start_rejected :: "date option \<Rightarrow> int \<Rightarrow> fact \<Rightarrow> bool" where
  "start_rejected period_start tolerance_days f \<longleftrightarrow>
     (case period_start of None \<Rightarrow> False
      | Some ps \<Rightarrow>
          (case parse_date (fact_start f) of None \<Rightarrow> False
           | Some fact_start_d \<Rightarrow> \<bar>days_between fact_start_d ps\<bar> > tolerance_days))"

text \<open>
  \<open>float(value)\<close> when the value is present; \<open>None\<close> stands for the two ways the body
  ends without returning: a null value, and a \<open>ValueError\<close> or \<open>TypeError\<close> caught by
  the handler. For the outcomes the handler does not cover see \<open>raw_float\<close>.
\<close>

definition float_of :: "raw_value \<Rightarrow> real option" where
  "float_of v = (case v of Absent \<Rightarrow> None | Numeric r \<Rightarrow> Some r | Unconvertible \<Rightarrow> None)"

text \<open>The inner loop over one candidate's sorted observations.\<close>

fun scan_facts :: "date \<Rightarrow> date option \<Rightarrow> string option \<Rightarrow> int \<Rightarrow> fact list \<Rightarrow> real option" where
  "scan_facts period_end period_start form_type tolerance_days [] = None"
| "scan_facts period_end period_start form_type tolerance_days (f # fs) =
     (if form_rejected form_type f then scan_facts period_end period_start form_type tolerance_days fs
      else if end_rejected period_end tolerance_days f then scan_facts period_end period_start form_type tolerance_days fs
      else if start_rejected period_start tolerance_days f then scan_facts period_end period_start form_type tolerance_days fs
      else (case float_of (fact_value f) of
              Some r \<Rightarrow> Some r
            | None \<Rightarrow> scan_facts period_end period_start form_type tolerance_days fs))"

text \<open>
  \<open>FinancialExtractor._find_fact_value\<close>. The fiscal year and fiscal period arguments are
  accepted by the source and never read, so they are left out. \<open>None\<close> is the pair
  \<open>(None, None)\<close>.
\<close>

fun find_fact_value ::
  "concept_index \<Rightarrow> string list \<Rightarrow> date \<Rightarrow> date option \<Rightarrow> string option \<Rightarrow> int \<Rightarrow> (real \<times> string) option" where
  "find_fact_value idx [] period_end period_start form_type tolerance_days = None"
| "find_fact_value idx (tag # tags) period_end period_start form_type tolerance_days =
     (case idx tag of
        None \<Rightarrow> find_fact_value idx tags period_end period_start form_type tolerance_days
      | Some fs \<Rightarrow>
          (case scan_facts period_end period_start form_type tolerance_days (sorted_facts fs) of
             Some r \<Rightarrow> Some (r, tag)
           | None \<Rightarrow> find_fact_value idx tags period_end period_start form_type tolerance_days))"


section \<open>Line items and statements\<close>

datatype StatementType = INCOME_STATEMENT | BALANCE_SHEET | CASH_FLOW

record LineItem =
  label :: string
  xbrl_tag :: string
  item_value :: "real option"
  item_period_end :: date
  item_period_start :: "date option"
  decimals :: int
  is_negated :: bool

text \<open>\<open>LineItem.display_value\<close>\<close>

definition display_value :: "LineItem \<Rightarrow> real option" where
  "display_value item =
     (case item_value item of None \<Rightarrow> None
      | Some v \<Rightarrow> Some (if is_negated item then - v else v))"

text \<open>
  \<open>line_items\<close> is a dictionary in insertion order: an association list in which
  assigning to a key already present keeps its place.
\<close>

record FinancialStatement =
  statement_type :: StatementType
  period_end :: date
  fiscal_year :: int
  fiscal_period :: string
  period_start :: "date option"
  line_items :: "(string \<times> LineItem) list"

definition add_line_item :: "string \<Rightarrow> LineItem \<Rightarrow> FinancialStatement \<Rightarrow> FinancialStatement" where
  "add_line_item key item stmt = stmt\<lparr>line_items := AList.update key item (line_items stmt)\<rparr>"

definition get_value :: "FinancialStatement \<Rightarrow> string \<Rightarrow> real option" where
  "get_value stmt key =
     (case map_of (line_items stmt) key of None \<Rightarrow> None | Some item \<Rightarrow> item_value item)"

definition to_dict :: "FinancialStatement \<Rightarrow> (string \<times> real option) list" where
  "to_dict stmt = map (\<lambda>(key, item). (key, display_value item)) (line_items stmt)"

section \<open>Static mapping tables\<close>

text \<open>
  The tables of \<open>mappings.py\<close>, in source order: for each statement the logical item
  keys with their candidate concept names (most preferred first), the keys shown negated,
  and the display labels.
\<close>

definition INCOME_STATEMENT_TAGS :: "(string \<times> string list) list" where
  "INCOME_STATEMENT_TAGS =
    [(''revenue'',
       [''RevenueFromContractWithCustomerExcludingAssessedTax'',
        ''Revenues'',
        ''SalesRevenueNet'',
        ''SalesRevenueGoodsNet'',
        ''RevenueFromContractWithCustomerIncludingAssessedTax'']),
     (''cost_of_revenue'',
       [''CostOfGoodsAndServicesSold'',
        ''CostOfRevenue'',
        ''CostOfGoodsSold'',
        ''CostOfServices'']),
     (''gross_profit'',
       [''GrossProfit'']),
     (''research_and_development'',
       [''ResearchAndDevelopmentExpense'',
        ''ResearchAndDevelopmentExpenseExcludingAcquiredInProcessCost'']),
     (''selling_general_admin'',
       [''SellingGeneralAndAdministrativeExpense'',
        ''SellingAndMarketingExpense'',
        ''GeneralAndAdministrativeExpense'']),
     (''operating_expenses'',
       [''OperatingExpenses'',
        ''CostsAndExpenses'']),
     (''operating_income'',
       [''OperatingIncomeLoss'']),
     (''interest_expense'',
       [''InterestExpense'',
        ''InterestExpenseDebt'']),
     (''interest_income'',
       [''InterestAndDividendIncomeOperating'',
        ''InvestmentIncomeInterest'',
        ''InterestIncomeOther'']),
     (''other_income_expense'',
       [''OtherNonoperatingIncomeExpense'',
        ''NonoperatingIncomeExpense'']),
     (''income_before_tax'',
       [''IncomeLossFromContinuingOperationsBeforeIncomeTaxesExtraordinaryItemsNoncontrollingInterest'',
        ''IncomeLossFromContinuingOperationsBeforeIncomeTaxesMinorityInterestAndIncomeLossFromEquityMethodInvestments'']),
     (''income_tax_expense'',
       [''IncomeTaxExpenseBenefit'']),
     (''net_income'',
       [''NetIncomeLoss'',
        ''ProfitLoss'',
        ''NetIncomeLossAvailableToCommonStockholdersBasic'']),
     (''eps_basic'',
       [''EarningsPerShareBasic'']),
     (''eps_diluted'',
       [''EarningsPerShareDiluted'']),
     (''shares_basic'',
       [''WeightedAverageNumberOfSharesOutstandingBasic'']),
     (''shares_diluted'',
       [''WeightedAverageNumberOfDilutedSharesOutstanding''])]"

definition BALANCE_SHEET_TAGS :: "(string \<times> string list) list" where
  "BALANCE_SHEET_TAGS =
    [(''cash_and_equivalents'',
       [''CashAndCashEquivalentsAtCarryingValue'',
        ''Cash'',
        ''CashCashEquivalentsRestrictedCashAndRestrictedCashEquivalents'']),
     (''short_term_investments'',
       [''ShortTermInvestments'',
        ''MarketableSecuritiesCurrent'',
        ''AvailableForSaleSecuritiesDebtSecuritiesCurrent'']),
     (''accounts_receivable'',
       [''AccountsReceivableNetCurrent'',
        ''ReceivablesNetCurrent'']),
     (''inventory'',
       [''InventoryNet'',
        ''InventoryFinishedGoodsAndWorkInProcess'']),
     (''prepaid_expenses'',
       [''PrepaidExpenseAndOtherAssetsCurrent'',
        ''PrepaidExpenseCurrent'']),
     (''total_current_assets'',
       [''AssetsCurrent'']),
     (''property_plant_equipment'',
       [''PropertyPlantAndEquipmentNet'']),
     (''goodwill'',
       [''Goodwill'']),
     (''intangible_assets'',
       [''IntangibleAssetsNetExcludingGoodwill'',
        ''FiniteLivedIntangibleAssetsNet'']),
     (''long_term_investments'',
       [''LongTermInvestments'',
        ''MarketableSecuritiesNoncurrent'']),
     (''other_assets'',
       [''OtherAssetsNoncurrent'']),
     (''total_assets'',
       [''Assets'']),
     (''accounts_payable'',
       [''AccountsPayableCurrent'']),
     (''accrued_liabilities'',
       [''AccruedLiabilitiesCurrent'',
        ''EmployeeRelatedLiabilitiesCurrent'']),
     (''deferred_revenue_current'',
       [''DeferredRevenueCurrent'',
        ''ContractWithCustomerLiabilityCurrent'']),
     (''short_term_debt'',
       [''ShortTermBorrowings'',
        ''DebtCurrent'']),
     (''current_portion_long_term_debt'',
       [''LongTermDebtCurrent'']),
     (''total_current_liabilities'',
       [''LiabilitiesCurrent'']),
     (''long_term_debt'',
       [''LongTermDebtNoncurrent'',
        ''LongTermDebt'']),
     (''deferred_tax_liabilities'',
       [''DeferredIncomeTaxLiabilitiesNet'']),
     (''other_liabilities'',
       [''OtherLiabilitiesNoncurrent'']),
     (''total_liabilities'',
       [''Liabilities'']),
     (''common_stock'',
       [''CommonStockValue'',
        ''CommonStocksIncludingAdditionalPaidInCapital'']),
     (''additional_paid_in_capital'',
       [''AdditionalPaidInCapitalCommonStock'',
        ''AdditionalPaidInCapital'']),
     (''retained_earnings'',
       [''RetainedEarningsAccumulatedDeficit'']),
     (''accumulated_other_comprehensive_income'',
       [''AccumulatedOtherComprehensiveIncomeLossNetOfTax'']),
     (''treasury_stock'',
       [''TreasuryStockValue'']),
     (''total_stockholders_equity'',
       [''StockholdersEquity'',
        ''StockholdersEquityIncludingPortionAttributableToNoncontrollingInterest'']),
     (''total_liabilities_and_equity'',
       [''LiabilitiesAndStockholdersEquity''])]"

definition CASH_FLOW_TAGS :: "(string \<times> string list) list" where
  "CASH_FLOW_TAGS =
    [(''net_income_cf'',
       [''NetIncomeLoss'',
        ''ProfitLoss'']),
     (''depreciation_amortization'',
       [''DepreciationDepletionAndAmortization'',
        ''DepreciationAndAmortization'']),
     (''stock_based_compensation'',
       [''ShareBasedCompensation'',
        ''AllocatedShareBasedCompensationExpense'']),
     (''deferred_income_taxes'',
       [''DeferredIncomeTaxExpenseBenefit'']),
     (''change_in_receivables'',
       [''IncreaseDecreaseInAccountsReceivable'']),
     (''change_in_inventory'',
       [''IncreaseDecreaseInInventories'']),
     (''change_in_payables'',
       [''IncreaseDecreaseInAccountsPayable'']),
     (''other_operating_activities'',
       [''OtherOperatingActivitiesCashFlowStatement'']),
     (''net_cash_from_operating'',
       [''NetCashProvidedByUsedInOperatingActivities'']),
     (''capital_expenditures'',
       [''PaymentsToAcquirePropertyPlantAndEquipment'',
        ''PaymentsToAcquireProductiveAssets'']),
     (''acquisitions'',
       [''PaymentsToAcquireBusinessesNetOfCashAcquired'']),
     (''purchases_of_investments'',
       [''PaymentsToAcquireInvestments'',
        ''PaymentsToAcquireAvailableForSaleSecuritiesDebt'']),
     (''sales_of_investments'',
       [''ProceedsFromSaleOfAvailableForSaleSecuritiesDebt'',
        ''ProceedsFromSaleAndMaturityOfMarketableSecurities'']),
     (''net_cash_from_investing'',
       [''NetCashProvidedByUsedInInvestingActivities'']),
     (''debt_repayment'',
       [''RepaymentsOfLongTermDebt'',
        ''RepaymentsOfDebt'']),
     (''debt_issuance'',
       [''ProceedsFromIssuanceOfLongTermDebt'',
        ''ProceedsFromDebtNetOfIssuanceCosts'']),
     (''share_repurchases'',
       [''PaymentsForRepurchaseOfCommonStock'']),
     (''dividends_paid'',
       [''PaymentsOfDividendsCommonStock'',
        ''PaymentsOfDividends'']),
     (''stock_issuance'',
       [''ProceedsFromIssuanceOfCommonStock'',
        ''ProceedsFromStockOptionsExercised'']),
     (''net_cash_from_financing'',
       [''NetCashProvidedByUsedInFinancingActivities'']),
     (''effect_of_exchange_rate'',
       [''EffectOfExchangeRateOnCashCashEquivalentsRestrictedCashAndRestrictedCashEquivalents'',
        ''EffectOfExchangeRateOnCashAndCashEquivalents'']),
     (''net_change_in_cash'',
       [''CashCashEquivalentsRestrictedCashAndRestrictedCashEquivalentsPeriodIncreaseDecreaseIncludingExchangeRateEffect'',
        ''CashAndCashEquivalentsPeriodIncreaseDecrease''])]"

definition NEGATED_ITEMS :: "string list" where
  "NEGATED_ITEMS =
    [''cost_of_revenue'',
     ''research_and_development'',
     ''selling_general_admin'',
     ''operating_expenses'',
     ''interest_expense'',
     ''income_tax_expense'',
     ''capital_expenditures'',
     ''acquisitions'',
     ''purchases_of_investments'',
     ''debt_repayment'',
     ''share_repurchases'',
     ''dividends_paid'',
     ''treasury_stock'']"

definition LABELS :: "(string \<times> string) list" where
  "LABELS =
    [(''revenue'', ''Revenue''),
     (''cost_of_revenue'', ''Cost of Revenue''),
     (''gross_profit'', ''Gross Profit''),
     (''research_and_development'', ''Research & Development''),
     (''selling_general_admin'', ''Selling, General & Administrative''),
     (''operating_expenses'', ''Operating Expenses''),
     (''operating_income'', ''Operating Income''),
     (''interest_expense'', ''Interest Expense''),
     (''interest_income'', ''Interest Income''),
     (''other_income_expense'', ''Other Income (Expense)''),
     (''income_before_tax'', ''Income Before Tax''),
     (''income_tax_expense'', ''Income Tax Expense''),
     (''net_income'', ''Net Income''),
     (''eps_basic'', ''EPS (Basic)''),
     (''eps_diluted'', ''EPS (Diluted)''),
     (''shares_basic'', ''Shares Outstanding (Basic)''),
     (''shares_diluted'', ''Shares Outstanding (Diluted)''),
     (''cash_and_equivalents'', ''Cash & Cash Equivalents''),
     (''short_term_investments'', ''Short-Term Investments''),
     (''accounts_receivable'', ''Accounts Receivable''),
     (''inventory'', ''Inventory''),
     (''prepaid_expenses'', ''Prepaid Expenses''),
     (''total_current_assets'', ''Total Current Assets''),
     (''property_plant_equipment'', ''Property, Plant & Equipment''),
     (''goodwill'', ''Goodwill''),
     (''intangible_assets'', ''Intangible Assets''),
     (''long_term_investments'', ''Long-Term Investments''),
     (''other_assets'', ''Other Assets''),
     (''total_assets'', ''Total Assets''),
     (''accounts_payable'', ''Accounts Payable''),
     (''accrued_liabilities'', ''Accrued Liabilities''),
     (''deferred_revenue_current'', ''Deferred Revenue (Current)''),
     (''short_term_debt'', ''Short-Term Debt''),
     (''current_portion_long_term_debt'', ''Current Portion of Long-Term Debt''),
     (''total_current_liabilities'', ''Total Current Liabilities''),
     (''long_term_debt'', ''Long-Term Debt''),
     (''deferred_tax_liabilities'', ''Deferred Tax Liabilities''),
     (''other_liabilities'', ''Other Liabilities''),
     (''total_liabilities'', ''Total Liabilities''),
     (''common_stock'', ''Common Stock''),
     (''additional_paid_in_capital'', ''Additional Paid-In Capital''),
     (''retained_earnings'', ''Retained Earnings''),
     (''accumulated_other_comprehensive_income'', ''Accumulated Other Comprehensive Income''),
     (''treasury_stock'', ''Treasury Stock''),
     (''total_stockholders_equity'', ''Total Stockholders' Equity''),
     (''total_liabilities_and_equity'', ''Total Liabilities & Equity''),
     (''net_income_cf'', ''Net Income''),
     (''depreciation_amortization'', ''Depreciation & Amortization''),
     (''stock_based_compensation'', ''Stock-Based Compensation''),
     (''deferred_income_taxes'', ''Deferred Income Taxes''),
     (''change_in_receivables'', ''Change in Receivables''),
     (''change_in_inventory'', ''Change in Inventory''),
     (''change_in_payables'', ''Change in Payables''),
     (''other_operating_activities'', ''Other Operating Activities''),
     (''net_cash_from_operating'', ''Net Cash from Operating Activities''),
     (''capital_expenditures'', ''Capital Expenditures''),
     (''acquisitions'', ''Acquisitions''),
     (''purchases_of_investments'', ''Purchases of Investments''),
     (''sales_of_investments'', ''Sales of Investments''),
     (''net_cash_from_investing'', ''Net Cash from Investing Activities''),
     (''debt_repayment'', ''Debt Repayment''),
     (''debt_issuance'', ''Debt Issuance''),
     (''share_repurchases'', ''Share Repurchases''),
     (''dividends_paid'', ''Dividends Paid''),
     (''stock_issuance'', ''Stock Issuance''),
     (''net_cash_from_financing'', ''Net Cash from Financing Activities''),
     (''effect_of_exchange_rate'', ''Effect of Exchange Rate''),
     (''net_change_in_cash'', ''Net Change in Cash'')]"

section \<open>Statement assembly\<close>

text \<open>\<open>LABELS.get(key, key)\<close>\<close>

definition label_of :: "string \<Rightarrow> string" where
  "label_of key = (case map_of LABELS key of None \<Rightarrow> key | Some l \<Rightarrow> l)"

text \<open>
  The line item the three extractors build for a resolved key. \<open>matched_tag or ""\<close> is the
  matched tag itself, because a value is only returned together with its tag.
\<close>

definition resolved_item :: "string \<Rightarrow> real \<Rightarrow> string \<Rightarrow> date option \<Rightarrow> date \<Rightarrow> LineItem" where
  "resolved_item key v matched_tag pstart pend =
     \<lparr> label = label_of key, xbrl_tag = matched_tag, item_value = Some v,
       item_period_end = pend, item_period_start = pstart, decimals = - 6,
       is_negated = (key \<in> set NEGATED_ITEMS) \<rparr>"

text \<open>
  The loop shared, textually, by \<open>extract_income_statement\<close>, \<open>extract_balance_sheet\<close> and
  \<open>extract_cash_flow\<close>: for each key of the table in order, resolve with the default
  tolerance of 5 days and add a line item only \<open>if value is not None\<close>.
\<close>

fun assemble ::
  "concept_index \<Rightarrow> (string \<times> string list) list \<Rightarrow> date \<Rightarrow> date option \<Rightarrow> string \<Rightarrow>
     FinancialStatement \<Rightarrow> FinancialStatement" where
  "assemble idx [] pend pstart form_type stmt = stmt"
| "assemble idx ((key, tag_candidates) # rest) pend pstart form_type stmt =
     assemble idx rest pend pstart form_type
       (case find_fact_value idx tag_candidates pend pstart (Some form_type) 5 of
          None \<Rightarrow> stmt
        | Some (v, matched_tag) \<Rightarrow>
            add_line_item key (resolved_item key v matched_tag pstart pend) stmt)"

definition extract_income_statement ::
  "concept_index \<Rightarrow> date \<Rightarrow> date \<Rightarrow> int \<Rightarrow> string \<Rightarrow> string \<Rightarrow> FinancialStatement" where
  "extract_income_statement idx pend pstart fy fp form_type =
     assemble idx INCOME_STATEMENT_TAGS pend (Some pstart) form_type
       \<lparr> statement_type = INCOME_STATEMENT, period_end = pend, fiscal_year = fy,
         fiscal_period = fp, period_start = Some pstart, line_items = [] \<rparr>"

definition extract_balance_sheet ::
  "concept_index \<Rightarrow> date \<Rightarrow> int \<Rightarrow> string \<Rightarrow> string \<Rightarrow> FinancialStatement" where
  "extract_balance_sheet idx pend fy fp form_type =
     assemble idx BALANCE_SHEET_TAGS pend None form_type
       \<lparr> statement_type = BALANCE_SHEET, period_end = pend, fiscal_year = fy,
         fiscal_period = fp, period_start = None, line_items = [] \<rparr>"

definition extract_cash_flow ::
  "concept_index \<Rightarrow> date \<Rightarrow> date \<Rightarrow> int \<Rightarrow> string \<Rightarrow> string \<Rightarrow> FinancialStatement" where
  "extract_cash_flow idx pend pstart fy fp form_type =
     assemble idx CASH_FLOW_TAGS pend (Some pstart) form_type
       \<lparr> statement_type = CASH_FLOW, period_end = pend, fiscal_year = fy,
         fiscal_period = fp, period_start = Some pstart, line_items = [] \<rparr>"

section \<open>Export and comparison surfaces\<close>

text \<open>\<open>key.lower()\<close> and the substring test \<open>'eps' in s\<close>.\<close>

definition lower_char :: "char \<Rightarrow> char" where
  "lower_char c =
     (let n = (of_char c :: nat) in if 65 \<le> n \<and> n \<le> 90 then char_of (n + 32) else c)"

definition lower :: "string \<Rightarrow> string" where
  "lower s = map lower_char s"

fun starts_with :: "string \<Rightarrow> string \<Rightarrow> bool" where
  "starts_with [] s = True"
| "starts_with (p # ps) [] = False"
| "starts_with (p # ps) (c # cs) = (p = c \<and> starts_with ps cs)"

fun contains :: "string \<Rightarrow> string \<Rightarrow> bool" where
  "contains sub [] = (sub = [])"
| "contains sub (c # cs) = (starts_with sub (c # cs) \<or> contains sub cs)"

text \<open>
  The number \<open>ExcelExporter._write_line_items\<close> writes into the amount column for an
  item: nothing when the item has no value, the display value for a per-share key, the
  display value divided by 1000 otherwise (share counts and money take the same branch
  result).
\<close>

definition scaled_value :: "string \<Rightarrow> LineItem \<Rightarrow> real option" where
  "scaled_value key item =
     (if item_value item \<noteq> None then
        (case display_value item of None \<Rightarrow> None
         | Some dv \<Rightarrow>
             if contains ''eps'' (lower key) then Some dv
             else if contains ''shares'' (lower key) then Some (dv / 1000)
             else Some (dv / 1000))
      else None)"

datatype cell = Text string | Number real

type_synonym worksheet = "nat \<times> nat \<rightharpoonup> cell"

text \<open>
  \<open>_write_line_items\<close> with the cell styling left out: a spacer advances the row, a key
  missing from the statement writes nothing and keeps the row, a present key writes
  its label in column 1 and its scaled value in column 2.
\<close>

fun write_line_items ::
  "worksheet \<Rightarrow> FinancialStatement \<Rightarrow> (string option \<times> bool) list \<Rightarrow> nat \<Rightarrow> worksheet \<times> nat" where
  "write_line_items ws stmt [] row = (ws, row)"
| "write_line_items ws stmt ((None, is_subtotal) # rest) row =
     write_line_items ws stmt rest (row + 1)"
| "write_line_items ws stmt ((Some key, is_subtotal) # rest) row =
     (case map_of (line_items stmt) key of
        None \<Rightarrow> write_line_items ws stmt rest row
      | Some item \<Rightarrow>
          (let ws1 = ws((row, 1) \<mapsto> Text (label item));
               ws2 = (case scaled_value key item of
                        None \<Rightarrow> ws1
                      | Some sv \<Rightarrow> ws1((row, 2) \<mapsto> Number sv))
           in write_line_items ws2 stmt rest (row + 1)))"

text \<open>
  The value \<open>compare_statements\<close> of \<open>verify_data.py\<close> stores under the item's label for
  comparison with the spreadsheet.
\<close>

definition sec_scaled_value :: "string \<Rightarrow> LineItem \<Rightarrow> real option" where
  "sec_scaled_value key item =
     (case item_value item of None \<Rightarrow> None
      | Some v \<Rightarrow>
          if contains ''eps'' (lower key) then display_value item
          else if contains ''shares'' (lower key) then map_option (\<lambda>dv. dv / 1000) (display_value item)
          else map_option (\<lambda>dv. dv / 1000) (display_value item))"

section \<open>The resolver on field values of any JSON type\<close>

text \<open>
  The payload is decoded JSON and nothing checks the type of a field before the resolver
  reads it. The definitions above describe the resolver on payloads whose date fields are
  text or absent and whose values are null, convert to a finite number, or make \<open>float\<close>
  raise one of the two exceptions the handler names. This section describes it on the
  remaining field values, where an exception can leave \<open>_find_fact_value\<close>.
\<close>

datatype py_exception = TypeError | OverflowError

text \<open>
  A date field: null or a missing key, text, or a number (\<open>true\<close> and \<open>false\<close> compare and
  test as 1 and 0). Arrays and objects in a date field are left out.
\<close>

datatype json_date = DNull | DText string | DNumber real

text \<open>
  A value field, by what \<open>float(value)\<close> does with it: the value is null; the result is a
  finite number; the result is \<open>nan\<close> or an infinity; \<open>ValueError\<close> or \<open>TypeError\<close> is raised
  (text that is not a number, an array, an object); \<open>OverflowError\<close> is raised (an integer
  beyond the range of a float).
\<close>

datatype json_value = VNull | VFloat real | VNonFinite | VRaises | VOverflows

text \<open>What \<open>float\<close> returned: a finite number, or \<open>nan\<close> or an infinity.\<close>

datatype resolved = Finite real | NonFinite


record raw_fact =
  rf_value :: json_value
  rf_end :: json_date
  rf_start :: json_date
  rf_fy :: "int option"
  rf_fp :: "string option"
  rf_form :: "string option"
  rf_filed :: "string option"
  rf_accn :: "string option"
  rf_frame :: "string option"
  rf_unit :: string




type_synonym raw_index = "string \<rightharpoonup> raw_fact list"





text \<open>
  \<open>_parse_date\<close>: a null or zero field is falsy and gives \<open>None\<close>; slicing a number raises
  \<open>TypeError\<close>, which is caught and gives \<open>None\<close>.
\<close>

definition raw_parse_date :: "json_date \<Rightarrow> date option" where
  "raw_parse_date d =
     (case d of DNull \<Rightarrow> None | DText s \<Rightarrow> parse_date (Some s) | DNumber r \<Rightarrow> None)"

text \<open>
  The sort key \<open>x.get('end', '') or ''\<close>: the field itself when it is truthy, the empty
  text otherwise.
\<close>

datatype end_sort_key = KText string | KNumber real

definition raw_end_key :: "raw_fact \<Rightarrow> end_sort_key" where
  "raw_end_key f =
     (case rf_end f of DNull \<Rightarrow> KText [] | DText s \<Rightarrow> KText s
      | DNumber r \<Rightarrow> if r = 0 then KText [] else KNumber r)"

fun is_text :: "end_sort_key \<Rightarrow> bool" where
  "is_text (KText s) = True"
| "is_text (KNumber r) = False"

fun text_of :: "end_sort_key \<Rightarrow> string" where
  "text_of (KText s) = s"
| "text_of (KNumber r) = []"

fun number_of :: "end_sort_key \<Rightarrow> real" where
  "number_of (KNumber r) = r"
| "number_of (KText s) = 0"

text \<open>
  \<open>sorted\<close> compares keys with \<open><\<close>. Text compares with text and numbers with numbers;
  comparing text with a number raises \<open>TypeError\<close>, and a list holding keys of both kinds
  cannot be sorted without such a comparison. The call is outside every handler.
\<close>

definition raw_sorted_facts :: "raw_fact list \<Rightarrow> py_exception + raw_fact list" where
  "raw_sorted_facts fs =
     (if list_all (\<lambda>f. is_text (raw_end_key f)) fs
      then Inr (rev (sort_key (\<lambda>f. text_of (raw_end_key f)) (rev fs)))
      else if list_all (\<lambda>f. \<not> is_text (raw_end_key f)) fs
      then Inr (rev (sort_key (\<lambda>f. number_of (raw_end_key f)) (rev fs)))
      else Inl TypeError)"

definition raw_form_rejected :: "string option \<Rightarrow> raw_fact \<Rightarrow> bool" where
  "raw_form_rejected form_type f \<longleftrightarrow>
     (case form_type of None \<Rightarrow> False
      | Some ft \<Rightarrow> ft \<noteq> [] \<and> rf_form f \<noteq> Some ft)"

definition raw_end_rejected :: "date \<Rightarrow> int \<Rightarrow> raw_fact \<Rightarrow> bool" where
  "raw_end_rejected target_end tolerance_days f \<longleftrightarrow>
     (case raw_parse_date (rf_end f) of None \<Rightarrow> True
      | Some fact_end_d \<Rightarrow> \<bar>days_between fact_end_d target_end\<bar> > tolerance_days)"

definition raw_start_rejected :: "date option \<Rightarrow> int \<Rightarrow> raw_fact \<Rightarrow> bool" where
  "raw_start_rejected target_start tolerance_days f \<longleftrightarrow>
     (case target_start of None \<Rightarrow> False
      | Some ps \<Rightarrow>
          (case raw_parse_date (rf_start f) of None \<Rightarrow> False
           | Some fact_start_d \<Rightarrow> \<bar>days_between fact_start_d ps\<bar> > tolerance_days))"

text \<open>
  The \<open>try\<close> block around \<open>float(value)\<close>: \<open>Inr None\<close> when the body ends without
  returning (a null value, or \<open>ValueError\<close> or \<open>TypeError\<close> caught), \<open>Inl\<close> when the
  exception is not one the handler names.
\<close>

definition raw_float :: "json_value \<Rightarrow> py_exception + resolved option" where
  "raw_float v =
     (case v of VNull \<Rightarrow> Inr None | VFloat r \<Rightarrow> Inr (Some (Finite r))
      | VNonFinite \<Rightarrow> Inr (Some NonFinite) | VRaises \<Rightarrow> Inr None
      | VOverflows \<Rightarrow> Inl OverflowError)"

fun raw_scan_facts ::
  "date \<Rightarrow> date option \<Rightarrow> string option \<Rightarrow> int \<Rightarrow> raw_fact list \<Rightarrow> py_exception + resolved option" where
  "raw_scan_facts target_end target_start form_type tolerance_days [] = Inr None"
| "raw_scan_facts target_end target_start form_type tolerance_days (f # fs) =
     (if raw_form_rejected form_type f then raw_scan_facts target_end target_start form_type tolerance_days fs
      else if raw_end_rejected target_end tolerance_days f then raw_scan_facts target_end target_start form_type tolerance_days fs
      else if raw_start_rejected target_start tolerance_days f then raw_scan_facts target_end target_start form_type tolerance_days fs
      else (case raw_float (rf_value f) of
              Inl e \<Rightarrow> Inl e
            | Inr (Some r) \<Rightarrow> Inr (Some r)
            | Inr None \<Rightarrow> raw_scan_facts target_end target_start form_type tolerance_days fs))"

fun raw_find_fact_value ::
  "raw_index \<Rightarrow> string list \<Rightarrow> date \<Rightarrow> date option \<Rightarrow> string option \<Rightarrow> int \<Rightarrow>
     py_exception + (resolved \<times> string) option" where
  "raw_find_fact_value idx [] target_end target_start form_type tolerance_days = Inr None"
| "raw_find_fact_value idx (tag # tags) target_end target_start form_type tolerance_days =
     (case idx tag of
        None \<Rightarrow> raw_find_fact_value idx tags target_end target_start form_type tolerance_days
      | Some fs \<Rightarrow>
          (case raw_sorted_facts fs of
             Inl e \<Rightarrow> Inl e
           | Inr sfs \<Rightarrow>
               (case raw_scan_facts target_end target_start form_type tolerance_days sfs of
                  Inl e \<Rightarrow> Inl e
                | Inr (Some r) \<Rightarrow> Inr (Some (r, tag))
                | Inr None \<Rightarrow>
                    raw_find_fact_value idx tags target_end target_start form_type tolerance_days)))"

text \<open>
  A fact of the first description, as a fact of this one; on such facts the two
  resolvers agree (lemma \<open>raw_find_fact_value_refines\<close>).
\<close>

definition as_raw :: "fact \<Rightarrow> raw_fact" where
  "as_raw f =
     \<lparr> rf_value = (case fact_value f of Absent \<Rightarrow> VNull | Numeric r \<Rightarrow> VFloat r | Unconvertible \<Rightarrow> VRaises),
       rf_end = (case fact_end f of None \<Rightarrow> DNull | Some s \<Rightarrow> DText s),
       rf_start = (case fact_start f of None \<Rightarrow> DNull | Some s \<Rightarrow> DText s),
       rf_fy = fact_fy f, rf_fp = fact_fp f, rf_form = fact_form f,
       rf_filed = fact_filed f, rf_accn = fact_accn f, rf_frame = fact_frame f,
       rf_unit = fact_unit f \<rparr>"

section \<open>Acceptable observations\<close>

text \<open>
  An observation is acceptable for a query when the resolver's loop body returns it: it
  passes the form filter, the end-date filter and the start-date filter, and its value
  converts to a number.
\<close>

definition acceptable :: "date \<Rightarrow> date option \<Rightarrow> string option \<Rightarrow> int \<Rightarrow> fact \<Rightarrow> bool" where
  "acceptable pe ps form tol f \<longleftrightarrow>
     \<not> form_rejected form f \<and> \<not> end_rejected pe tol f \<and> \<not> start_rejected ps tol f
     \<and> float_of (fact_value f) \<noteq> None"

text \<open>A candidate has a match when it is indexed and one of its observations is acceptable.\<close>

definition has_match :: "concept_index \<Rightarrow> date \<Rightarrow> date option \<Rightarrow> string option \<Rightarrow> int \<Rightarrow> string \<Rightarrow> bool" where
  "has_match idx pe ps form tol tag =
     (case idx tag of None \<Rightarrow> False | Some fs \<Rightarrow> list_ex (acceptable pe ps form tol) fs)"

text \<open>A list of observations in descending order of the end-date text the resolver sorts by.\<close>

definition sorted_by_end_desc :: "fact list \<Rightarrow> bool" where
  "sorted_by_end_desc fs = sorted_wrt (\<lambda>a b. end_key b \<le> end_key a) fs"

text \<open>
  A key resolves against a statement's table when the table lists it and the resolver,
  called as the assembler calls it, finds a value among its candidates.
\<close>

definition resolves ::
  "concept_index \<Rightarrow> (string \<times> string list) list \<Rightarrow> date \<Rightarrow> date option \<Rightarrow> string \<Rightarrow> string \<Rightarrow> bool" where
  "resolves idx tbl pe ps form_type key =
     (case map_of tbl key of None \<Rightarrow> False
      | Some cands \<Rightarrow> find_fact_value idx cands pe ps (Some form_type) 5 \<noteq> None)"

text \<open>No line item of the statement carries a null value.\<close>

definition no_null_items :: "FinancialStatement \<Rightarrow> bool" where
  "no_null_items stmt = list_all (\<lambda>(key, item). item_value item \<noteq> None) (line_items stmt)"





text \<open>
  The unit arrays a namespace list holds for a concept, in order, and the facts
  \<open>_index_facts\<close> makes of a list of unit arrays, in order.
\<close>

definition units_of :: "namespace \<Rightarrow> string \<Rightarrow> units" where
  "units_of ns c = concat (map snd (filter (\<lambda>e. fst e = c) ns))"

definition facts_of_units :: "units \<Rightarrow> fact list" where
  "facts_of_units us = concat (map (\<lambda>(unit_type, vs). map (mk_fact unit_type) vs) us)"

text \<open>
  The observations of a concept in payload order: the unit arrays of its entries under
  \<open>us-gaap\<close>, then those under \<open>dei\<close>; nothing when the concept has no unit array.
\<close>

definition payload_order :: "xbrl_facts \<Rightarrow> string \<Rightarrow> fact list option" where
  "payload_order p c =
     (let us = units_of (us_gaap p @ dei p) c
      in if us = [] then None else Some (facts_of_units us))"

section \<open>Example data\<close>

text \<open>An annual-report observation in US dollars with the given end date, start date and value.\<close>

definition obs_at :: "string \<Rightarrow> string option \<Rightarrow> raw_value \<Rightarrow> fact" where
  "obs_at e s v =
     \<lparr> fact_value = v, fact_end = Some e, fact_start = s, fact_fy = None, fact_fp = None,
       fact_form = Some ''10-K'', fact_filed = None, fact_accn = None, fact_frame = None,
       fact_unit = ''USD'' \<rparr>"

text \<open>
  Candidate \<open>A\<close> has one observation five days after 2024-09-28, candidate \<open>B\<close> one on that
  very day; \<open>Z\<close> is not indexed.
\<close>

definition idx_AB :: concept_index where
  "idx_AB = [''A'' \<mapsto> [obs_at ''2024-10-03'' None (Numeric 111)],
             ''B'' \<mapsto> [obs_at ''2024-09-28'' None (Numeric 222)]]"

text \<open>A payload observation with an end date, a form and a value, and nothing else.\<close>

definition raw_obs :: "string \<Rightarrow> string \<Rightarrow> raw_value \<Rightarrow> raw_observation" where
  "raw_obs e frm v =
     \<lparr> obs_val = v, obs_end = Some e, obs_start = None, obs_fy = None, obs_fp = None,
       obs_form = Some frm, obs_filed = None, obs_accn = None, obs_frame = None \<rparr>"

text \<open>A payload that lists the net income of 2023 before that of 2024.\<close>

definition payload_asc :: xbrl_facts where
  "payload_asc =
     \<lparr> us_gaap = [(''NetIncomeLoss'',
                    [(''USD'', [raw_obs ''2023-09-30'' ''10-K'' (Numeric 900),
                                raw_obs ''2024-09-30'' ''10-K'' (Numeric 1000)])])],
       dei = [] \<rparr>"

text \<open>An income statement for fiscal 2024 with no line item yet, and two with one item.\<close>

definition empty_income_statement :: FinancialStatement where
  "empty_income_statement =
     \<lparr> statement_type = INCOME_STATEMENT, period_end = Date 2024 9 28, fiscal_year = 2024,
       fiscal_period = ''FY'', period_start = Some (Date 2023 10 1), line_items = [] \<rparr>"

definition revenue_item :: LineItem where
  "revenue_item = resolved_item ''revenue'' 12345000 ''Revenues'' (Some (Date 2023 10 1)) (Date 2024 9 28)"

definition stmt_revenue :: FinancialStatement where
  "stmt_revenue = add_line_item ''revenue'' revenue_item empty_income_statement"

definition eps_item :: LineItem where
  "eps_item = resolved_item ''eps_basic'' 3.21 ''EarningsPerShareBasic'' (Some (Date 2023 10 1)) (Date 2024 9 28)"

definition stmt_eps :: FinancialStatement where
  "stmt_eps = add_line_item ''eps_basic'' eps_item empty_income_statement"

text \<open>
  Four observations of one concept, six and four days on either side of 2024-09-28,
  listed in ascending order.
\<close>

definition four_obs :: "fact list" where
  "four_obs = [obs_at ''2024-09-22'' None (Numeric 1), obs_at ''2024-09-24'' None (Numeric 2),
               obs_at ''2024-10-02'' None (Numeric 3), obs_at ''2024-10-04'' None (Numeric 4)]"

text \<open>The taxonomy of the end-to-end scenario: net income of 2024 and of 2023, both from a 10-K.\<close>

definition payload_net_income :: xbrl_facts where
  "payload_net_income =
     \<lparr> us_gaap = [(''NetIncomeLoss'',
                    [(''USD'', [raw_obs ''2024-09-30'' ''10-K'' (Numeric 1000),
                                raw_obs ''2023-09-30'' ''10-K'' (Numeric 900)])])],
       dei = [] \<rparr>"

text \<open>The candidate list of the key \<open>net_income\<close>, read from the income-statement table.\<close>

definition net_income_candidates :: "string list" where
  "net_income_candidates =
     (case map_of INCOME_STATEMENT_TAGS ''net_income'' of None \<Rightarrow> [] | Some c \<Rightarrow> c)"

definition cost_item :: LineItem where
  "cost_item = resolved_item ''cost_of_revenue'' 500 ''CostOfRevenue'' (Some (Date 2023 10 1)) (Date 2024 9 28)"

definition stmt_cost :: FinancialStatement where
  "stmt_cost = add_line_item ''cost_of_revenue'' cost_item empty_income_statement"


text \<open>Two observations a day apart, the earlier one with an unpadded month.\<close>

definition unpadded_obs :: "fact list" where
  "unpadded_obs = [obs_at ''2024-10-01'' None (Numeric 10), obs_at ''2024-9-30'' None (Numeric 9)]"

text \<open>A raw annual-report observation with the given end field and value field.\<close>

definition raw_obs_at :: "json_date \<Rightarrow> json_value \<Rightarrow> raw_fact" where
  "raw_obs_at e v =
     \<lparr> rf_value = v, rf_end = e, rf_start = DNull, rf_fy = None, rf_fp = None,
       rf_form = Some ''10-K'', rf_filed = None, rf_accn = None, rf_frame = None,
       rf_unit = ''USD'' \<rparr>"




text \<open>An integer too large for a float on the target day, and a numeric end field among text ones.\<close>

definition raw_idx_overflow :: raw_index where
  "raw_idx_overflow = [''NetIncomeLoss'' \<mapsto>
      [raw_obs_at (DText ''2024-09-28'') VOverflows, raw_obs_at (DText ''2024-09-27'') (VFloat 1000)]]"

definition raw_idx_numeric_end :: raw_index where
  "raw_idx_numeric_end = [''NetIncomeLoss'' \<mapsto>
      [raw_obs_at (DNumber 20240928) (VFloat 1), raw_obs_at (DText ''2024-09-27'') (VFloat 1000)]]"

section \<open>Evaluation rules\<close>

lemmas date_eval = parse_date_def strptime_ymd_def in_range_def digit_of_def digit_val_def
  valid_date_def days_in_month_def days_between_def toordinal_def days_before_year_def
  days_before_month_def is_leap_def

lemmas filter_eval = form_rejected_def end_rejected_def start_rejected_def float_of_def

lemmas index_eval = index_facts_def index_namespace_def index_concept_def index_values_def mk_fact_def

lemmas key_eval = lower_def lower_char_def NEGATED_ITEMS_def

section \<open>The example taxonomy, indexed\<close>

lemma net_income_candidates_eq:
  "net_income_candidates = [''NetIncomeLoss'', ''ProfitLoss'', ''NetIncomeLossAvailableToCommonStockholdersBasic'']"
  by (simp add: net_income_candidates_def INCOME_STATEMENT_TAGS_def)

lemma idx_net_income:
  "index_facts payload_net_income =
     [''NetIncomeLoss'' \<mapsto> [mk_fact ''USD'' (raw_obs ''2024-09-30'' ''10-K'' (Numeric 1000)),
                              mk_fact ''USD'' (raw_obs ''2023-09-30'' ''10-K'' (Numeric 900))]]"
  by (simp add: payload_net_income_def index_facts_def index_namespace_def index_concept_def index_values_def)

section \<open>The inner loop returns the first acceptable observation\<close>

lemma scan_facts_find:
  "scan_facts pe ps form tol fs =
     (case find (acceptable pe ps form tol) fs of None \<Rightarrow> None | Some f \<Rightarrow> float_of (fact_value f))"
  by (induction fs) (auto simp: acceptable_def split: option.splits)

lemma scan_facts_None_iff:
  "scan_facts pe ps form tol fs = None \<longleftrightarrow> \<not> list_ex (acceptable pe ps form tol) fs"
  by (induction fs) (auto simp: acceptable_def split: option.splits)

lemma set_sorted_facts: "set (sorted_facts fs) = set fs"
  by (simp add: sorted_facts_def)

lemma list_ex_sorted_facts: "list_ex P (sorted_facts fs) = list_ex P fs"
  by (simp add: list_ex_iff set_sorted_facts)

lemma scan_sorted_None:
  "\<not> list_ex (acceptable pe ps form tol) fs \<Longrightarrow> scan_facts pe ps form tol (sorted_facts fs) = None"
  by (simp add: scan_facts_None_iff list_ex_sorted_facts)

lemma find_fact_value_skip:
  "\<forall>t\<in>set pre. \<not> has_match idx pe ps form tol t \<Longrightarrow>
   find_fact_value idx (pre @ rest) pe ps form tol = find_fact_value idx rest pe ps form tol"
proof (induction pre)
  case Nil
  then show ?case by simp
next
  case (Cons t pre)
  then have skip: "find_fact_value idx (pre @ rest) pe ps form tol = find_fact_value idx rest pe ps form tol"
    by simp
  from Cons.prems have "\<not> has_match idx pe ps form tol t" by simp
  then show ?case
    using skip by (cases "idx t") (simp_all add: has_match_def scan_sorted_None)
qed

section \<open>Candidate priority\<close>

text \<open>
  Claim C1. Whatever the candidate list and the target period, the resolver answers with
  the first candidate, in list order, that has an acceptable observation: if no candidate
  before \<open>tag\<close> has a match and \<open>tag\<close> has one, the result carries \<open>tag\<close> and the value of
  the first acceptable observation of \<open>tag\<close> in descending end-date order, whatever the
  candidates after \<open>tag\<close> hold. A later candidate is never consulted, even when one of its
  observations lies exactly on the target date and the earlier candidate's match lies on
  the tolerance boundary.
\<close>

theorem first_matching_candidate_wins:
  assumes "\<forall>t\<in>set pre. \<not> has_match idx pe ps form tol t"
    and "idx tag = Some fs" and "list_ex (acceptable pe ps form tol) fs"
  shows "\<exists>f r. find (acceptable pe ps form tol) (sorted_facts fs) = Some f
           \<and> float_of (fact_value f) = Some r
           \<and> find_fact_value idx (pre @ tag # post) pe ps form tol = Some (r, tag)"
proof -
  from assms(3) have "list_ex (acceptable pe ps form tol) (sorted_facts fs)"
    by (simp add: list_ex_sorted_facts)
  then obtain f where f: "find (acceptable pe ps form tol) (sorted_facts fs) = Some f"
    by (cases "find (acceptable pe ps form tol) (sorted_facts fs)")
       (auto simp: find_None_iff list_ex_iff)
  then have "acceptable pe ps form tol f"
    by (auto simp: find_Some_iff)
  then obtain r where r: "float_of (fact_value f) = Some r"
    by (auto simp: acceptable_def)
  have "scan_facts pe ps form tol (sorted_facts fs) = Some r"
    using f r by (simp add: scan_facts_find)
  then have "find_fact_value idx (tag # post) pe ps form tol = Some (r, tag)"
    using assms(2) by simp
  with find_fact_value_skip[OF assms(1)] f r show ?thesis
    by simp
qed

text \<open>
  The boundary scenario: \<open>A\<close> matches five days off the target, \<open>B\<close> matches the target
  day itself, and the answer is the value of \<open>A\<close>.
\<close>

theorem first_matching_candidate_wins_witness:
  "\<not> has_match idx_AB (Date 2024 9 28) None (Some ''10-K'') 5 ''Z''
   \<and> idx_AB ''A'' = Some [obs_at ''2024-10-03'' None (Numeric 111)]
   \<and> list_ex (acceptable (Date 2024 9 28) None (Some ''10-K'') 5) [obs_at ''2024-10-03'' None (Numeric 111)]
   \<and> has_match idx_AB (Date 2024 9 28) None (Some ''10-K'') 5 ''B''
   \<and> find_fact_value idx_AB [''Z'', ''A'', ''B''] (Date 2024 9 28) None (Some ''10-K'') 5 = Some (111, ''A'')"
  using first_matching_candidate_wins[of "[''Z'']" idx_AB "Date 2024 9 28" None "Some ''10-K''" 5
      "''A''" "[obs_at ''2024-10-03'' None (Numeric 111)]" "[''B'']"]
  by (simp add: idx_AB_def obs_at_def has_match_def acceptable_def sorted_facts_def filter_eval date_eval)

section \<open>Order of a concept's observations\<close>

text \<open>
  Claim C2 says that the index holds every concept's observations in descending order of
  period end from the moment it is built. The index built from a payload that lists 2023
  before 2024 holds them in that same ascending order: \<open>_index_facts\<close> appends and never
  sorts.
\<close>

theorem index_not_sorted_counterexample:
  "index_facts payload_asc ''NetIncomeLoss'' =
     Some [mk_fact ''USD'' (raw_obs ''2023-09-30'' ''10-K'' (Numeric 900)),
           mk_fact ''USD'' (raw_obs ''2024-09-30'' ''10-K'' (Numeric 1000))]
   \<and> \<not> sorted_by_end_desc
        [mk_fact ''USD'' (raw_obs ''2023-09-30'' ''10-K'' (Numeric 900)),
         mk_fact ''USD'' (raw_obs ''2024-09-30'' ''10-K'' (Numeric 1000))]
   \<and> parse_date (obs_end (raw_obs ''2023-09-30'' ''10-K'' (Numeric 900))) = Some (Date 2023 9 30)
   \<and> parse_date (obs_end (raw_obs ''2024-09-30'' ''10-K'' (Numeric 1000))) = Some (Date 2024 9 30)
   \<and> days_between (Date 2023 9 30) (Date 2024 9 30) = - 366"
  by (simp add: payload_asc_def index_eval raw_obs_def sorted_by_end_desc_def end_key_def date_eval)

lemma sorted_facts_desc: "sorted_by_end_desc (sorted_facts fs)"
proof -
  have "sorted (map end_key (sort_key end_key (rev fs)))"
    by (rule sorted_sort_key)
  then have "sorted_wrt (\<lambda>a b. end_key a \<le> end_key b) (sort_key end_key (rev fs))"
    by (simp add: sorted_wrt_map)
  then show ?thesis
    by (simp add: sorted_by_end_desc_def sorted_facts_def sorted_wrt_rev)
qed

lemma mset_sorted_facts: "mset (sorted_facts fs) = mset fs"
  by (simp add: sorted_facts_def)

lemma facts_of_units_Nil: "facts_of_units [] = []"
  by (simp add: facts_of_units_def)

lemma facts_of_units_append: "facts_of_units (a @ b) = facts_of_units a @ facts_of_units b"
  by (simp add: facts_of_units_def)

lemma units_of_append: "units_of (a @ b) c = units_of a c @ units_of b c"
  by (simp add: units_of_def)

lemma units_of_Cons:
  "units_of ((c', us) # ns) c = (if c' = c then us @ units_of ns c else units_of ns c)"
  by (simp add: units_of_def)

lemma index_concept_eq:
  "index_concept concept us idx =
     (if us = [] then idx
      else idx(concept \<mapsto> (case idx concept of None \<Rightarrow> [] | Some fs \<Rightarrow> fs) @ facts_of_units us))"
proof (induction us arbitrary: idx)
  case Nil
  then show ?case by (simp add: index_concept_def)
next
  case (Cons u us)
  obtain unit_type vs where u: "u = (unit_type, vs)" by (cases u)
  have step: "index_concept concept (u # us) idx
                = index_concept concept us (index_values concept unit_type vs idx)"
    using u by (simp add: index_concept_def)
  show ?case
    unfolding step Cons.IH using u
    by (auto simp: index_values_def facts_of_units_def fun_eq_iff)
qed

lemma index_namespace_eq:
  "index_namespace ns idx c =
     (if units_of ns c = [] then idx c
      else Some ((case idx c of None \<Rightarrow> [] | Some fs \<Rightarrow> fs) @ facts_of_units (units_of ns c)))"
proof (induction ns arbitrary: idx)
  case Nil
  then show ?case by (simp add: index_namespace_def units_of_def)
next
  case (Cons e ns)
  obtain c' us where e: "e = (c', us)" by (cases e)
  have step: "index_namespace ((c', us) # ns) idx = index_namespace ns (index_concept c' us idx)"
    by (simp add: index_namespace_def)
  show ?case
    unfolding e step Cons.IH units_of_Cons
    by (simp add: index_concept_eq facts_of_units_append facts_of_units_Nil)
qed

lemma index_facts_payload_order: "index_facts p c = payload_order p c"
  by (simp add: index_facts_def payload_order_def index_namespace_eq units_of_append
      facts_of_units_append facts_of_units_Nil Let_def)

lemma stable_sorted_facts:
  "filter (\<lambda>f. end_key f = k) (sorted_facts fs) = filter (\<lambda>f. end_key f = k) fs"
proof -
  have "filter (\<lambda>f. end_key f = k) (sorted_facts fs)
          = rev (filter (\<lambda>f. end_key f = k) (sort_key end_key (rev fs)))"
    unfolding sorted_facts_def by (rule rev_filter[symmetric])
  also have "\<dots> = rev (filter (\<lambda>f. end_key f = k) (rev fs))"
    by (simp only: sort_key_stable)
  also have "\<dots> = filter (\<lambda>f. end_key f = k) fs"
    by (simp only: rev_filter rev_rev_ident)
  finally show ?thesis .
qed

text \<open>
  Claim C2, amended. For every concept the index holds the observations in payload
  order: the unit arrays of the concept's entries under \<open>us-gaap\<close>, followed by those
  under \<open>dei\<close>, each appended as it comes and never sorted; a concept without a unit
  array is not indexed. The order is established by the resolver, on every query: the
  list it scans for a candidate is a rearrangement of the candidate's indexed list in
  descending order of the end-date text, observations with the same end-date text
  keeping their payload order. That is the order of the text, not of the dates:
  \<open>2024-9-30\<close> is scanned before \<open>2024-10-01\<close>, and resolving for 2024-10-01 returns the
  observation of the day before.
\<close>

theorem sorted_per_query:
  "index_facts p c = payload_order p c
   \<and> sorted_by_end_desc (sorted_facts fs)
   \<and> mset (sorted_facts fs) = mset fs
   \<and> filter (\<lambda>f. end_key f = k) (sorted_facts fs) = filter (\<lambda>f. end_key f = k) fs
   \<and> find_fact_value idx (tag # tags) pe ps form tol =
       (case idx tag of
          None \<Rightarrow> find_fact_value idx tags pe ps form tol
        | Some gs \<Rightarrow>
            (case scan_facts pe ps form tol (sorted_facts gs) of
               Some r \<Rightarrow> Some (r, tag)
             | None \<Rightarrow> find_fact_value idx tags pe ps form tol))
   \<and> sorted_facts unpadded_obs =
       [obs_at ''2024-9-30'' None (Numeric 9), obs_at ''2024-10-01'' None (Numeric 10)]
   \<and> parse_date (Some ''2024-9-30'') = Some (Date 2024 9 30)
   \<and> parse_date (Some ''2024-10-01'') = Some (Date 2024 10 1)
   \<and> days_between (Date 2024 9 30) (Date 2024 10 1) = - 1
   \<and> scan_facts (Date 2024 10 1) None None 5 (sorted_facts unpadded_obs) = Some 9"
proof -
  have "sorted_facts unpadded_obs =
          [obs_at ''2024-9-30'' None (Numeric 9), obs_at ''2024-10-01'' None (Numeric 10)]"
    by (simp add: unpadded_obs_def obs_at_def sorted_facts_def end_key_def)
  moreover have "scan_facts (Date 2024 10 1) None None 5
          [obs_at ''2024-9-30'' None (Numeric 9), obs_at ''2024-10-01'' None (Numeric 10)] = Some 9"
    by (simp add: obs_at_def filter_eval date_eval)
  moreover have "parse_date (Some ''2024-9-30'') = Some (Date 2024 9 30)"
    and "parse_date (Some ''2024-10-01'') = Some (Date 2024 10 1)"
    and "days_between (Date 2024 9 30) (Date 2024 10 1) = - 1"
    by (simp_all add: date_eval)
  moreover have "find_fact_value idx (tag # tags) pe ps form tol =
       (case idx tag of
          None \<Rightarrow> find_fact_value idx tags pe ps form tol
        | Some gs \<Rightarrow>
            (case scan_facts pe ps form tol (sorted_facts gs) of
               Some r \<Rightarrow> Some (r, tag)
             | None \<Rightarrow> find_fact_value idx tags pe ps form tol))"
    by (simp split: option.splits)
  ultimately show ?thesis
    using index_facts_payload_order[of p c] sorted_facts_desc[of fs] mset_sorted_facts[of fs]
      stable_sorted_facts[of k fs]
    by simp
qed

section \<open>Where negation and scaling are applied\<close>

text \<open>
  Claim C3 says that \<open>to_dict\<close> yields the exported value. For a revenue of 12,345,000
  the dictionary holds 12,345,000 while the exporter writes 12,345: \<open>to_dict\<close> applies the
  negation only.
\<close>

theorem to_dict_unscaled_counterexample:
  "map_of (line_items stmt_revenue) ''revenue'' = Some revenue_item
   \<and> map_of (to_dict stmt_revenue) ''revenue'' = Some (Some 12345000)
   \<and> scaled_value ''revenue'' revenue_item = Some 12345
   \<and> fst (write_line_items Map.empty stmt_revenue [(Some ''revenue'', False)] 7) (7, 2) = Some (Number 12345)"
  by (simp add: stmt_revenue_def revenue_item_def empty_income_statement_def add_line_item_def
      resolved_item_def to_dict_def display_value_def scaled_value_def key_eval)

lemma to_dict_lookup:
  "map_of (to_dict stmt) key = map_option display_value (map_of (line_items stmt) key)"
  by (simp add: to_dict_def map_of_map)

lemma scaled_value_eq:
  "scaled_value key item =
     map_option (\<lambda>dv. if contains ''eps'' (lower key) then dv else dv / 1000) (display_value item)"
  by (cases "item_value item") (simp_all add: scaled_value_def display_value_def)

lemma sec_scaled_value_eq: "sec_scaled_value key item = scaled_value key item"
  by (cases "item_value item") (simp_all add: sec_scaled_value_def scaled_value_def display_value_def)

lemma write_single:
  "map_of (line_items stmt) key = Some item \<Longrightarrow>
   fst (write_line_items ws stmt [(Some key, b)] row) (row, 2) =
     (case scaled_value key item of None \<Rightarrow> ws (row, 2) | Some sv \<Rightarrow> Some (Number sv))"
  by (simp add: Let_def split: option.splits)

text \<open>
  Claim C3, amended. For every statement and every key of its mapping, \<open>to_dict\<close> yields
  the raw value with the negation applied and no scaling. The exporter writes that same
  number for a key containing \<open>eps\<close> and that number divided by 1,000 for any other key,
  and the comparison of \<open>verify_data.py\<close> computes exactly what the exporter writes.
\<close>

theorem surfaces_agree_up_to_scaling:
  assumes "map_of (line_items stmt) key = Some item"
  shows "map_of (to_dict stmt) key = Some (display_value item)
     \<and> display_value item = map_option (\<lambda>v. if is_negated item then - v else v) (item_value item)
     \<and> scaled_value key item =
         map_option (\<lambda>dv. if contains ''eps'' (lower key) then dv else dv / 1000) (display_value item)
     \<and> sec_scaled_value key item = scaled_value key item
     \<and> fst (write_line_items ws stmt [(Some key, b)] row) (row, 2) =
         (case scaled_value key item of None \<Rightarrow> ws (row, 2) | Some sv \<Rightarrow> Some (Number sv))"
  using assms
  by (simp add: to_dict_lookup scaled_value_eq sec_scaled_value_eq write_single)
     (simp add: display_value_def split: option.splits)

theorem surfaces_agree_up_to_scaling_witness:
  "map_of (line_items stmt_eps) ''eps_basic'' = Some eps_item
   \<and> map_of (to_dict stmt_eps) ''eps_basic'' = Some (Some 3.21)
   \<and> scaled_value ''eps_basic'' eps_item = Some 3.21
   \<and> sec_scaled_value ''eps_basic'' eps_item = Some 3.21
   \<and> fst (write_line_items Map.empty stmt_eps [(Some ''eps_basic'', False)] 7) (7, 2) = Some (Number 3.21)"
  using surfaces_agree_up_to_scaling[of stmt_eps "''eps_basic''" eps_item Map.empty False 7]
  by (simp add: stmt_eps_def eps_item_def empty_income_statement_def add_line_item_def
      resolved_item_def display_value_def key_eval)

section \<open>The end-date tolerance\<close>

text \<open>
  Claim C4. With a tolerance of 5 days, an observation whose period end is 4 days from
  the target passes the end-date check, and is the answer when it also passes the other
  checks; one that is 6 days away fails the check. Failing the check skips that one
  observation: the loop goes on with the rest of the candidate's list.
\<close>

theorem end_tolerance_four_in_six_out:
  assumes "parse_date (fact_end f) = Some d"
  shows "(\<bar>days_between d pe\<bar> = 4 \<longrightarrow> \<not> end_rejected pe 5 f)
     \<and> (\<bar>days_between d pe\<bar> = 4 \<and> \<not> form_rejected form f \<and> \<not> start_rejected ps 5 f
          \<and> float_of (fact_value f) = Some r \<longrightarrow> scan_facts pe ps form 5 (f # fs) = Some r)
     \<and> (\<bar>days_between d pe\<bar> = 6 \<longrightarrow>
          end_rejected pe 5 f \<and> scan_facts pe ps form 5 (f # fs) = scan_facts pe ps form 5 fs)
     \<and> (tol < \<bar>days_between d pe\<bar> \<longrightarrow>
          scan_facts pe ps form tol (f # fs) = scan_facts pe ps form tol fs)"
  using assms by (simp add: end_rejected_def)

text \<open>
  Observations at six and four days on both sides of the target: the scan passes over
  the one six days late and answers with the one four days late; with only the two
  six-day observations there is no answer.
\<close>

theorem end_tolerance_four_in_six_out_witness:
  "parse_date (fact_end (obs_at ''2024-10-04'' None (Numeric 4))) = Some (Date 2024 10 4)
   \<and> \<bar>days_between (Date 2024 10 4) (Date 2024 9 28)\<bar> = 6
   \<and> \<bar>days_between (Date 2024 10 2) (Date 2024 9 28)\<bar> = 4
   \<and> sorted_facts four_obs =
        [obs_at ''2024-10-04'' None (Numeric 4), obs_at ''2024-10-02'' None (Numeric 3),
         obs_at ''2024-09-24'' None (Numeric 2), obs_at ''2024-09-22'' None (Numeric 1)]
   \<and> scan_facts (Date 2024 9 28) None None 5 (sorted_facts four_obs) = Some 3
   \<and> scan_facts (Date 2024 9 28) None None 5
        [obs_at ''2024-10-04'' None (Numeric 4), obs_at ''2024-09-22'' None (Numeric 1)] = None"
  using end_tolerance_four_in_six_out[of "obs_at ''2024-10-04'' None (Numeric 4)" "Date 2024 10 4"
      "Date 2024 9 28" None None 0 "[obs_at ''2024-10-02'' None (Numeric 3),
         obs_at ''2024-09-24'' None (Numeric 2), obs_at ''2024-09-22'' None (Numeric 1)]" 5]
    end_tolerance_four_in_six_out[of "obs_at ''2024-10-02'' None (Numeric 3)" "Date 2024 10 2"
      "Date 2024 9 28" None None 3 "[obs_at ''2024-09-24'' None (Numeric 2), obs_at ''2024-09-22'' None (Numeric 1)]" 5]
  by (simp add: four_obs_def obs_at_def sorted_facts_def end_key_def filter_eval date_eval)

section \<open>Statement assembly omits unresolved keys\<close>

lemma distinct_income_keys: "distinct (map fst INCOME_STATEMENT_TAGS)"
  by (simp add: INCOME_STATEMENT_TAGS_def)

lemma distinct_balance_keys: "distinct (map fst BALANCE_SHEET_TAGS)"
  by (simp add: BALANCE_SHEET_TAGS_def)

lemma distinct_cash_flow_keys: "distinct (map fst CASH_FLOW_TAGS)"
  by (simp add: CASH_FLOW_TAGS_def)

lemma set_update_subset: "set (AList.update k v al) \<subseteq> insert (k, v) (set al)"
  by (induction al) auto

lemma no_null_add:
  "no_null_items stmt \<Longrightarrow> item_value item \<noteq> None \<Longrightarrow> no_null_items (add_line_item key item stmt)"
  using set_update_subset[of key item "line_items stmt"]
  by (auto simp: no_null_items_def add_line_item_def list_all_iff)

lemma assemble_no_null:
  "no_null_items stmt \<Longrightarrow> no_null_items (assemble idx tbl pe ps form_type stmt)"
proof (induction tbl arbitrary: stmt)
  case Nil
  then show ?case by simp
next
  case (Cons entry tbl)
  obtain key cands where entry: "entry = (key, cands)" by (cases entry)
  show ?case
  proof (cases "find_fact_value idx cands pe ps (Some form_type) 5")
    case None
    then show ?thesis using Cons entry by simp
  next
    case (Some res)
    obtain v tag where res: "res = (v, tag)" by (cases res)
    have "no_null_items (add_line_item key (resolved_item key v tag ps pe) stmt)"
      using Cons.prems by (rule no_null_add) (simp add: resolved_item_def)
    then show ?thesis using Cons.IH entry Some res by simp
  qed
qed

lemma assemble_lookup:
  "distinct (map fst tbl) \<Longrightarrow>
   map_of (line_items (assemble idx tbl pe ps form_type stmt)) key =
     (case map_of tbl key of
        None \<Rightarrow> map_of (line_items stmt) key
      | Some cands \<Rightarrow>
          (case find_fact_value idx cands pe ps (Some form_type) 5 of
             None \<Rightarrow> map_of (line_items stmt) key
           | Some (v, tag) \<Rightarrow> Some (resolved_item key v tag ps pe)))"
proof (induction tbl arbitrary: stmt)
  case Nil
  then show ?case by simp
next
  case (Cons entry tbl)
  obtain k cands where entry: "entry = (k, cands)" by (cases entry)
  from Cons.prems entry have d: "distinct (map fst tbl)" and notin: "k \<notin> fst ` set tbl"
    by auto
  from notin have later: "map_of tbl k = None"
    by (simp add: map_of_eq_None_iff)
  show ?case
  proof (cases "key = k")
    case True
    then show ?thesis
      using Cons.IH[OF d] entry later
      by (auto simp: add_line_item_def update_conv' split: option.splits)
  next
    case False
    then show ?thesis
      using Cons.IH[OF d] entry
      by (auto simp: add_line_item_def update_conv' split: option.splits)
  qed
qed

lemma assemble_keys:
  assumes "distinct (map fst tbl)" and "line_items stmt = []"
  shows "key \<in> fst ` set (line_items (assemble idx tbl pe ps form_type stmt))
          \<longleftrightarrow> resolves idx tbl pe ps form_type key"
proof -
  have "key \<in> fst ` set (line_items (assemble idx tbl pe ps form_type stmt))
          \<longleftrightarrow> map_of (line_items (assemble idx tbl pe ps form_type stmt)) key \<noteq> None"
    by (simp add: map_of_eq_None_iff)
  also have "\<dots> \<longleftrightarrow> resolves idx tbl pe ps form_type key"
    using assms by (auto simp: assemble_lookup resolves_def split: option.splits)
  finally show ?thesis .
qed

text \<open>
  Claim C5. In the statement built by each of the three assemblers, a key is present in
  the line-item mapping exactly when the statement's table lists it and its resolution
  produced a value; a key whose resolution produces nothing is absent. No line item of
  an assembled statement carries a null value.
\<close>

theorem unresolved_keys_absent:
  "(key \<in> fst ` set (line_items (extract_income_statement idx pe ps fy fp form_type))
      \<longleftrightarrow> resolves idx INCOME_STATEMENT_TAGS pe (Some ps) form_type key)
   \<and> (key \<in> fst ` set (line_items (extract_balance_sheet idx pe fy fp form_type))
      \<longleftrightarrow> resolves idx BALANCE_SHEET_TAGS pe None form_type key)
   \<and> (key \<in> fst ` set (line_items (extract_cash_flow idx pe ps fy fp form_type))
      \<longleftrightarrow> resolves idx CASH_FLOW_TAGS pe (Some ps) form_type key)
   \<and> no_null_items (extract_income_statement idx pe ps fy fp form_type)
   \<and> no_null_items (extract_balance_sheet idx pe fy fp form_type)
   \<and> no_null_items (extract_cash_flow idx pe ps fy fp form_type)"
proof -
  have empty: "\<And>stmt. line_items stmt = [] \<Longrightarrow> no_null_items stmt"
    by (simp add: no_null_items_def)
  have "no_null_items (extract_income_statement idx pe ps fy fp form_type)"
    unfolding extract_income_statement_def by (rule assemble_no_null) (simp add: empty)
  moreover have "no_null_items (extract_balance_sheet idx pe fy fp form_type)"
    unfolding extract_balance_sheet_def by (rule assemble_no_null) (simp add: empty)
  moreover have "no_null_items (extract_cash_flow idx pe ps fy fp form_type)"
    unfolding extract_cash_flow_def by (rule assemble_no_null) (simp add: empty)
  ultimately show ?thesis
    by (simp add: extract_income_statement_def extract_balance_sheet_def extract_cash_flow_def
        assemble_keys distinct_income_keys distinct_balance_keys distinct_cash_flow_keys)
qed

text \<open>
  With only net income in the taxonomy, the income statement has the key \<open>net_income\<close>
  and has no key \<open>revenue\<close>.
\<close>

theorem unresolved_keys_absent_witness:
  "\<not> resolves (index_facts payload_net_income) INCOME_STATEMENT_TAGS (Date 2024 9 28)
        (Some (Date 2023 10 1)) ''10-K'' ''revenue''
   \<and> ''revenue'' \<notin> fst ` set (line_items (extract_income_statement (index_facts payload_net_income)
        (Date 2024 9 28) (Date 2023 10 1) 2024 ''FY'' ''10-K''))
   \<and> ''net_income'' \<in> fst ` set (line_items (extract_income_statement (index_facts payload_net_income)
        (Date 2024 9 28) (Date 2023 10 1) 2024 ''FY'' ''10-K''))
   \<and> no_null_items (extract_income_statement (index_facts payload_net_income)
        (Date 2024 9 28) (Date 2023 10 1) 2024 ''FY'' ''10-K'')"
  using unresolved_keys_absent[of "''revenue''" "index_facts payload_net_income" "Date 2024 9 28"
      "Date 2023 10 1" 2024 "''FY''" "''10-K''"]
    unresolved_keys_absent[of "''net_income''" "index_facts payload_net_income" "Date 2024 9 28"
      "Date 2023 10 1" 2024 "''FY''" "''10-K''"]
  by (simp add: resolves_def INCOME_STATEMENT_TAGS_def idx_net_income mk_fact_def raw_obs_def
      sorted_facts_def end_key_def filter_eval date_eval)

section \<open>The start-date check\<close>

text \<open>
  Claim C6. When a target period start is given, an observation whose start date parses
  and lies more than the tolerance from the target start is skipped. An observation with
  no start date is not rejected by the start check, and is the answer when its form and
  period end pass and its value converts.
\<close>

theorem start_filter_forgives_missing_start:
  "(parse_date (fact_start f) = Some s \<and> tol < \<bar>days_between s ps\<bar> \<longrightarrow>
      start_rejected (Some ps) tol f
      \<and> scan_facts pe (Some ps) form tol (f # fs) = scan_facts pe (Some ps) form tol fs)
   \<and> (fact_start f = None \<and> \<not> form_rejected form f \<and> \<not> end_rejected pe tol f
        \<and> float_of (fact_value f) = Some r \<longrightarrow>
      \<not> start_rejected (Some ps) tol f \<and> scan_facts pe (Some ps) form tol (f # fs) = Some r)"
  by (simp add: start_rejected_def parse_date_def)

text \<open>
  A year starting 2023-10-01: the observation that starts eleven days early is skipped,
  the one without a start date is returned.
\<close>

theorem start_filter_forgives_missing_start_witness:
  "parse_date (fact_start (obs_at ''2024-09-28'' (Some ''2023-09-20'') (Numeric 7))) = Some (Date 2023 9 20)
   \<and> 5 < \<bar>days_between (Date 2023 9 20) (Date 2023 10 1)\<bar>
   \<and> scan_facts (Date 2024 9 28) (Some (Date 2023 10 1)) (Some ''10-K'') 5
        [obs_at ''2024-09-28'' (Some ''2023-09-20'') (Numeric 7), obs_at ''2024-09-28'' None (Numeric 8)] = Some 8"
  using start_filter_forgives_missing_start[of "obs_at ''2024-09-28'' (Some ''2023-09-20'') (Numeric 7)"
      "Date 2023 9 20" 5 "Date 2023 10 1" "Date 2024 9 28" "Some ''10-K''" "[obs_at ''2024-09-28'' None (Numeric 8)]" 0]
    start_filter_forgives_missing_start[of "obs_at ''2024-09-28'' None (Numeric 8)"
      "Date 2023 9 20" 5 "Date 2023 10 1" "Date 2024 9 28" "Some ''10-K''" "[]" 8]
  by (simp add: obs_at_def filter_eval date_eval)

section \<open>Malformed observations\<close>


lemmas raw_filter_eval = raw_form_rejected_def raw_end_rejected_def raw_start_rejected_def
  raw_float_def raw_parse_date_def



















lemma insort_key_map:
  "insort_key k (g x) (map g xs) = map g (insort_key (\<lambda>y. k (g y)) x xs)"
  by (induction xs) simp_all

lemma sort_key_map: "sort_key k (map g xs) = map g (sort_key (\<lambda>y. k (g y)) xs)"
  by (induction xs) (simp_all add: insort_key_map)

lemma raw_end_key_as_raw: "raw_end_key (as_raw f) = KText (end_key f)"
  by (simp add: raw_end_key_def as_raw_def end_key_def split: option.splits)

lemma raw_sorted_facts_as_raw: "raw_sorted_facts (map as_raw fs) = Inr (map as_raw (sorted_facts fs))"
  by (simp add: raw_sorted_facts_def sorted_facts_def list_all_iff raw_end_key_as_raw
      rev_map sort_key_map)

lemma raw_parse_date_as_raw:
  "raw_parse_date (rf_end (as_raw f)) = parse_date (fact_end f)"
  "raw_parse_date (rf_start (as_raw f)) = parse_date (fact_start f)"
  by (simp_all add: raw_parse_date_def as_raw_def parse_date_def split: option.splits)

lemma raw_scan_facts_as_raw:
  "raw_scan_facts pe ps form tol (map as_raw fs) = Inr (map_option Finite (scan_facts pe ps form tol fs))"
proof (induction fs)
  case Nil
  then show ?case by simp
next
  case (Cons f fs)
  have "raw_form_rejected form (as_raw f) = form_rejected form f"
    by (simp add: raw_form_rejected_def form_rejected_def as_raw_def split: option.splits)
  moreover have "raw_end_rejected pe tol (as_raw f) = end_rejected pe tol f"
    by (simp add: raw_end_rejected_def end_rejected_def raw_parse_date_as_raw)
  moreover have "raw_start_rejected ps tol (as_raw f) = start_rejected ps tol f"
    by (cases ps) (simp_all add: raw_start_rejected_def start_rejected_def raw_parse_date_as_raw)
  moreover have "raw_float (rf_value (as_raw f)) = Inr (map_option Finite (float_of (fact_value f)))"
    by (cases "fact_value f") (simp_all add: raw_float_def float_of_def as_raw_def)
  ultimately show ?case
    using Cons by (cases "float_of (fact_value f)") simp_all
qed

text \<open>
  On an index whose facts all come from the first description, the resolver of this
  section raises nothing and returns what \<open>find_fact_value\<close> returns.
\<close>

lemma raw_find_fact_value_refines:
  "raw_find_fact_value (\<lambda>c. map_option (map as_raw) (idx c)) cands pe ps form tol
     = Inr (map_option (\<lambda>(r, tag). (Finite r, tag)) (find_fact_value idx cands pe ps form tol))"
proof (induction cands)
  case Nil
  then show ?case by simp
next
  case (Cons tag cands)
  show ?case
  proof (cases "idx tag")
    case None
    then show ?thesis using Cons by simp
  next
    case (Some fs)
    then show ?thesis
      using Cons
      by (cases "scan_facts pe ps form tol (sorted_facts fs)")
         (simp_all add: raw_sorted_facts_as_raw raw_scan_facts_as_raw)
  qed
qed

text \<open>
  Outside that description an exception can leave the resolver: a value too large for a
  float on an observation that passes the filters, and a numeric end field next to a
  textual one.
\<close>

lemma overflow_leaves_resolver:
  "raw_find_fact_value raw_idx_overflow [''NetIncomeLoss''] (Date 2024 9 28) None (Some ''10-K'') 5
     = Inl OverflowError"
  by (simp add: raw_idx_overflow_def raw_obs_at_def raw_sorted_facts_def raw_end_key_def
      raw_filter_eval date_eval)

lemma numeric_end_leaves_resolver:
  "raw_find_fact_value raw_idx_numeric_end [''NetIncomeLoss''] (Date 2024 9 28) None (Some ''10-K'') 5
     = Inl TypeError"
  by (simp add: raw_idx_numeric_end_def raw_obs_at_def raw_sorted_facts_def raw_end_key_def)



section \<open>Display values\<close>

lemma negated_keys_not_eps: "key \<in> set NEGATED_ITEMS \<Longrightarrow> \<not> contains ''eps'' (lower key)"
  by (auto simp: key_eval)

text \<open>
  Claim C8 names one normalized display value, the raw value with the sign flipped and
  then scaled, and gives -500 for \<open>cost_of_revenue\<close> at 500 and 12,345 for a monetary
  12,345,000. No single value of the code does both: the exported number for
  \<open>cost_of_revenue\<close> at 500 is -1/2, and \<open>display_value\<close> of a revenue of 12,345,000 is
  12,345,000.
\<close>

theorem normalized_display_value_counterexample:
  "scaled_value ''cost_of_revenue'' cost_item = Some (- (1 / 2))
   \<and> scaled_value ''cost_of_revenue'' cost_item \<noteq> Some (- 500)
   \<and> display_value revenue_item = Some 12345000
   \<and> display_value revenue_item \<noteq> Some 12345"
  by (simp add: cost_item_def revenue_item_def resolved_item_def display_value_def scaled_value_def
      key_eval)

text \<open>
  Claim C8, amended. Negation and scaling are applied at two places. For the line item
  the assembler builds for a key, \<open>LineItem.display_value\<close> is the raw value with its sign
  flipped exactly when the key is in the negated-item set, unscaled: -500 for
  \<open>cost_of_revenue\<close> at 500, 500 for \<open>revenue\<close> at 500, 12,345,000 for a revenue of
  12,345,000. The exported number is that display value, divided by 1,000 unless the key
  contains \<open>eps\<close>: 12,345 for a revenue of 12,345,000, 3.21 for earnings per share of
  3.21, 1,000 for a share count of 1,000,000, and -1/2 for \<open>cost_of_revenue\<close> at 500.
\<close>

theorem display_values:
  "display_value (resolved_item key v tag ps pe) = Some (if key \<in> set NEGATED_ITEMS then - v else v)
   \<and> scaled_value key (resolved_item key v tag ps pe) =
        Some (if contains ''eps'' (lower key)
              then (if key \<in> set NEGATED_ITEMS then - v else v)
              else (if key \<in> set NEGATED_ITEMS then - v else v) / 1000)
   \<and> display_value (resolved_item ''cost_of_revenue'' 500 tag ps pe) = Some (- 500)
   \<and> display_value (resolved_item ''revenue'' 500 tag ps pe) = Some 500
   \<and> display_value (resolved_item ''revenue'' 12345000 tag ps pe) = Some 12345000
   \<and> scaled_value ''revenue'' (resolved_item ''revenue'' 12345000 tag ps pe) = Some 12345
   \<and> scaled_value ''eps_basic'' (resolved_item ''eps_basic'' 3.21 tag ps pe) = Some 3.21
   \<and> scaled_value ''shares_basic'' (resolved_item ''shares_basic'' 1000000 tag ps pe) = Some 1000
   \<and> scaled_value ''cost_of_revenue'' (resolved_item ''cost_of_revenue'' 500 tag ps pe) = Some (- (1 / 2))"
  by (simp add: display_value_def scaled_value_def resolved_item_def key_eval)

section \<open>The form filter\<close>

text \<open>
  Claim C9. When a form type is required, an observation whose form differs is skipped.
  In the end-to-end scenario (net income of 1000 ending 2024-09-30 and of 900 ending
  2023-09-30, both from a 10-K), resolving the \<open>net_income\<close> candidates for the period
  ending 2024-09-28 with tolerance 5 and form 10-K gives 1000 from \<open>NetIncomeLoss\<close>, the
  observation two days off the target.
\<close>

theorem form_filter_and_scenario:
  "(ft \<noteq> [] \<and> fact_form f \<noteq> Some ft \<longrightarrow>
      scan_facts pe ps (Some ft) tol (f # fs) = scan_facts pe ps (Some ft) tol fs)
   \<and> find_fact_value (index_facts payload_net_income) net_income_candidates
        (Date 2024 9 28) None (Some ''10-K'') 5 = Some (1000, ''NetIncomeLoss'')"
  by (simp add: idx_net_income net_income_candidates_eq mk_fact_def raw_obs_def
      sorted_facts_def end_key_def filter_eval date_eval)

text \<open>
  A quarterly observation on the target day is passed over when 10-K is required, and
  returned when no form is required.
\<close>

theorem form_filter_and_scenario_witness:
  "''10-K'' \<noteq> [] \<and> fact_form (mk_fact ''USD'' (raw_obs ''2024-09-28'' ''10-Q'' (Numeric 5))) \<noteq> Some ''10-K''
   \<and> scan_facts (Date 2024 9 28) None (Some ''10-K'') 5
        [mk_fact ''USD'' (raw_obs ''2024-09-28'' ''10-Q'' (Numeric 5)),
         mk_fact ''USD'' (raw_obs ''2024-09-30'' ''10-K'' (Numeric 1000))] = Some 1000
   \<and> scan_facts (Date 2024 9 28) None None 5
        [mk_fact ''USD'' (raw_obs ''2024-09-28'' ''10-Q'' (Numeric 5)),
         mk_fact ''USD'' (raw_obs ''2024-09-30'' ''10-K'' (Numeric 1000))] = Some 5"
  using form_filter_and_scenario[of "''10-K''" "mk_fact ''USD'' (raw_obs ''2024-09-28'' ''10-Q'' (Numeric 5))"
      "Date 2024 9 28" None 5 "[mk_fact ''USD'' (raw_obs ''2024-09-30'' ''10-K'' (Numeric 1000))]"]
  by (simp add: mk_fact_def raw_obs_def filter_eval date_eval)

section \<open>The raw value of a line item\<close>

text \<open>
  Claim C10. For every statement and every key of its mapping, \<open>get_value\<close> returns the
  item's raw value: no negation, no scaling. For a negated item with raw value \<open>v\<close> it
  returns \<open>v\<close> while the display value is \<open>-v\<close>, and for a key of the negated-item set
  the exporter writes \<open>-v / 1000\<close>.
\<close>

theorem get_value_raw:
  assumes "map_of (line_items stmt) key = Some item"
  shows "get_value stmt key = item_value item
     \<and> (is_negated item \<and> item_value item = Some v \<longrightarrow>
          get_value stmt key = Some v \<and> display_value item = Some (- v)
          \<and> (key \<in> set NEGATED_ITEMS \<longrightarrow> scaled_value key item = Some (- v / 1000)))"
  using assms negated_keys_not_eps[of key]
  by (auto simp: get_value_def display_value_def scaled_value_def)

theorem get_value_raw_witness:
  "map_of (line_items stmt_cost) ''cost_of_revenue'' = Some cost_item
   \<and> is_negated cost_item \<and> item_value cost_item = Some 500
   \<and> ''cost_of_revenue'' \<in> set NEGATED_ITEMS
   \<and> get_value stmt_cost ''cost_of_revenue'' = Some 500
   \<and> display_value cost_item = Some (- 500)
   \<and> scaled_value ''cost_of_revenue'' cost_item = Some (- (1 / 2))"
  using get_value_raw[of stmt_cost "''cost_of_revenue''" cost_item 500]
  by (simp add: stmt_cost_def cost_item_def empty_income_statement_def add_line_item_def
      resolved_item_def NEGATED_ITEMS_def)

end
